theory Spec2Isabelle
  imports Complex_Main "HOL-Library.Monad_Syntax"
begin

section \<open>The LINCS constraint kernel for SYCL devices\<close>

text \<open>
  This theory embeds \<^verbatim>\<open>lincsKernel\<close> of
  \<^verbatim>\<open>src/gromacs/mdlib/lincs_gpu_internal_sycl.cpp\<close>. Device floats are read in
  exact arithmetic (type \<open>real\<close>). A computation that the source leaves without a
  defined value has the result \<open>None\<close>: an access outside the range of a buffer or
  accessor, and a reciprocal square root of an argument that is not positive.
  Integer indices are taken without 32 bit wrap-around.
\<close>

subsection \<open>Vectors, buffers and arithmetic primitives\<close>

type_synonym Float3 = "real \<times> real \<times> real"

definition DIM :: int where "DIM = 3"
definition XX :: int where "XX = 0"
definition YY :: int where "YY = 1"
definition ZZ :: int where "ZZ = 2"

text \<open>Component \<open>d\<close> of a vector, \<^verbatim>\<open>v[d]\<close>.\<close>

definition comp :: "Float3 \<Rightarrow> int \<Rightarrow> real" where
  "comp v d = (case v of (x, y, z) \<Rightarrow> if d = XX then x else if d = YY then y else z)"

definition dot3 :: "Float3 \<Rightarrow> Float3 \<Rightarrow> real" where
  "dot3 a b = comp a XX * comp b XX + comp a YY * comp b YY + comp a ZZ * comp b ZZ"

text \<open>\<^verbatim>\<open>v * s\<close> and \<^verbatim>\<open>s * v\<close> on \<^verbatim>\<open>Float3\<close>.\<close>

definition scale3 :: "Float3 \<Rightarrow> real \<Rightarrow> Float3" where
  "scale3 v s = (comp v XX * s, comp v YY * s, comp v ZZ * s)"

definition zero3 :: Float3 where
  "zero3 = (0, 0, 0)"

text \<open>\<^verbatim>\<open>cl::sycl::rsqrt\<close>: defined on positive arguments only.\<close>

definition rsqrt :: "real \<Rightarrow> real option" where
  "rsqrt x = (if 0 < x then Some (1 / sqrt x) else None)"

text \<open>Reading and writing element \<open>k\<close> of a buffer; the index is a C++ \<^verbatim>\<open>int\<close>.\<close>

definition rd :: "'a list \<Rightarrow> int \<Rightarrow> 'a option" where
  "rd xs k = (if 0 \<le> k \<and> k < int (length xs) then Some (xs ! nat k) else None)"

definition wr :: "'a list \<Rightarrow> int \<Rightarrow> 'a \<Rightarrow> 'a list option" where
  "wr xs k v = (if 0 \<le> k \<and> k < int (length xs) then Some (xs[nat k := v]) else None)"

definition atomicLoad :: "real list \<Rightarrow> int \<Rightarrow> real option" where
  "atomicLoad xs k = rd xs k"

definition atomicFetchAdd :: "real list \<Rightarrow> int \<Rightarrow> real \<Rightarrow> real list option" where
  "atomicFetchAdd xs k v =
     (if 0 \<le> k \<and> k < int (length xs) then Some (xs[nat k := xs ! nat k + v]) else None)"

text \<open>The three atomic loads of the coordinates of atom \<open>a\<close> from a flat array.\<close>

definition loadAtom :: "real list \<Rightarrow> int \<Rightarrow> Float3 option" where
  "loadAtom xs a = do {
     x \<leftarrow> atomicLoad xs (a * DIM + XX);
     y \<leftarrow> atomicLoad xs (a * DIM + YY);
     z \<leftarrow> atomicLoad xs (a * DIM + ZZ);
     Some (x, y, z)
   }"

text \<open>A loop whose body may fail: it stops at the first failure.\<close>

fun forEach :: "('a \<Rightarrow> 's \<Rightarrow> 's option) \<Rightarrow> 'a list \<Rightarrow> 's \<Rightarrow> 's option" where
  "forEach f [] s = Some s"
| "forEach f (x # xs) s = (case f x s of None \<Rightarrow> None | Some s' \<Rightarrow> forEach f xs s')"

subsection \<open>Kernel arguments, device memory, work-group state\<close>

text \<open>
  The template flags and the scalar arguments of the kernel. \<open>c_threadsPerBlock\<close> is a
  constant of \<^verbatim>\<open>lincs_gpu.h\<close> and \<open>pbcDxAiucSycl\<close> a function of
  \<^verbatim>\<open>pbc_aiuc_sycl.h\<close> (with the \<^verbatim>\<open>PbcAiuc\<close> argument applied); neither file is
  part of the sources at hand, so both are parameters. \<open>uninitialised\<close> is the content
  of local memory when the kernel starts.
\<close>

record kernel_args =
  updateVelocities :: bool
  computeVirial :: bool
  haveCoupledConstraints :: bool
  c_threadsPerBlock :: nat
  numConstraintsThreads :: nat
  numIterations :: int
  expansionOrder :: int
  invdt :: real
  pbcDxAiucSycl :: "Float3 \<Rightarrow> Float3 \<Rightarrow> Float3"
  uninitialised :: real

record device_memory =
  a_constraints :: "(int \<times> int) list"
  a_constraintsTargetLengths :: "real list"
  a_coupledConstraintsCounts :: "int list"
  a_coupledConstraintsIndices :: "int list"
  a_massFactors :: "real list"
  a_matrixA :: "real list"
  a_inverseMasses :: "real list"
  a_x :: "Float3 list"
  a_xp :: "real list"
  a_v :: "real list"
  a_virialScaled :: "real list"

text \<open>The private variables of one work-item.\<close>

record thread_vars =
  pair_i :: int
  pair_j :: int
  isDummyThread :: bool
  targetLength :: real
  inverseMassi :: real
  inverseMassj :: real
  sqrtReducedMass :: real
  xi :: Float3
  xj :: Float3
  rc :: Float3
  coupledConstraintsCount :: int
  sol :: real
  lagrangeScaled :: real

text \<open>
  A work-group: global memory, its three local buffers and the private variables of
  its work-items, by \<^verbatim>\<open>threadInBlock\<close>.
\<close>

record group_state =
  gm :: device_memory
  sm_r :: "Float3 list"
  sm_rhs :: "real list"
  sm_threadVirial :: "real list"
  priv :: "thread_vars list"

definition threadIndex :: "kernel_args \<Rightarrow> nat \<Rightarrow> nat \<Rightarrow> int" where
  "threadIndex p b tib = int (b * c_threadsPerBlock p + tib)"

text \<open>
  Work-items of a group advance in lockstep: each of the steps below is run for every
  \<^verbatim>\<open>threadInBlock\<close> in turn before the next step starts. Every barrier of the
  source lies between two steps.
\<close>

definition forThreads ::
  "kernel_args \<Rightarrow> (nat \<Rightarrow> group_state \<Rightarrow> group_state option) \<Rightarrow> group_state \<Rightarrow> group_state option"
where
  "forThreads p step g = forEach step [0..<c_threadsPerBlock p] g"

subsection \<open>The steps of a work-item\<close>

text \<open>Lines 177 to 226: collecting the data of the constraint, storing its direction.\<close>

definition collectData :: "kernel_args \<Rightarrow> nat \<Rightarrow> nat \<Rightarrow> group_state \<Rightarrow> group_state option" where
  "collectData p b tib g = do {
     pair \<leftarrow> rd (a_constraints (gm g)) (threadIndex p b tib);
     let i = fst pair;
     let j = snd pair;
     tv \<leftarrow> (if i = - 1
            then Some \<lparr>pair_i = i, pair_j = j, isDummyThread = True, targetLength = 0,
                   inverseMassi = 0, inverseMassj = 0, sqrtReducedMass = 0,
                   xi = zero3, xj = zero3, rc = zero3,
                   coupledConstraintsCount = 0, sol = 0, lagrangeScaled = 0\<rparr>
            else do {
              len \<leftarrow> rd (a_constraintsTargetLengths (gm g)) (threadIndex p b tib);
              imi \<leftarrow> rd (a_inverseMasses (gm g)) i;
              imj \<leftarrow> rd (a_inverseMasses (gm g)) j;
              srm \<leftarrow> rsqrt (imi + imj);
              x0 \<leftarrow> rd (a_x (gm g)) i;
              x1 \<leftarrow> rd (a_x (gm g)) j;
              let dx = pbcDxAiucSycl p x0 x1;
              rlen \<leftarrow> rsqrt (comp dx XX * comp dx XX + comp dx YY * comp dx YY
                              + comp dx ZZ * comp dx ZZ);
              Some \<lparr>pair_i = i, pair_j = j, isDummyThread = False, targetLength = len,
                   inverseMassi = imi, inverseMassj = imj, sqrtReducedMass = srm,
                   xi = x0, xj = x1, rc = scale3 dx rlen,
                   coupledConstraintsCount = 0, sol = 0, lagrangeScaled = 0\<rparr>
            });
     smr \<leftarrow> wr (sm_r g) (threadIndex p b tib) (rc tv);
     Some (g\<lparr>sm_r := smr, priv := (priv g)[tib := tv]\<rparr>)
   }"

text \<open>Lines 234 to 248: the row of the coupling matrix.\<close>

definition matrixElement ::
  "kernel_args \<Rightarrow> device_memory \<Rightarrow> Float3 list \<Rightarrow> int \<Rightarrow> Float3 \<Rightarrow> nat \<Rightarrow> real list \<Rightarrow> real list option"
where
  "matrixElement p m smr ti rc0 n A = do {
     let index = int n * int (numConstraintsThreads p) + ti;
     c1 \<leftarrow> rd (a_coupledConstraintsIndices m) index;
     rc1 \<leftarrow> rd smr c1;
     mf \<leftarrow> rd (a_massFactors m) index;
     wr A index (mf * (comp rc0 XX * comp rc1 XX + comp rc0 YY * comp rc1 YY
                       + comp rc0 ZZ * comp rc1 ZZ))
   }"

definition constructMatrix :: "kernel_args \<Rightarrow> nat \<Rightarrow> nat \<Rightarrow> group_state \<Rightarrow> group_state option" where
  "constructMatrix p b tib g =
     (if haveCoupledConstraints p then do {
        let tv = priv g ! tib;
        cnt \<leftarrow> rd (a_coupledConstraintsCounts (gm g)) (threadIndex p b tib);
        A \<leftarrow> forEach (matrixElement p (gm g) (sm_r g) (threadIndex p b tib) (rc tv))
               [0..<nat cnt] (a_matrixA (gm g));
        Some (g\<lparr>gm := (gm g)\<lparr>a_matrixA := A\<rparr>,
                priv := (priv g)[tib := tv\<lparr>coupledConstraintsCount := cnt\<rparr>]\<rparr>)
      }
      else Some g)"

text \<open>
  Lines 250 to 259, and 326 to 334: the positions of both atoms are loaded again, in
  all but dummy work-items.
\<close>

definition loadPositions :: "device_memory \<Rightarrow> thread_vars \<Rightarrow> thread_vars option" where
  "loadPositions m tv =
     (if \<not> isDummyThread tv then do {
        x0 \<leftarrow> loadAtom (a_xp m) (pair_i tv);
        x1 \<leftarrow> loadAtom (a_xp m) (pair_j tv);
        Some (tv\<lparr>xi := x0, xj := x1\<rparr>)
      }
      else Some tv)"

text \<open>Lines 250 to 271: the right-hand side of the first projection.\<close>

definition computeRhs :: "kernel_args \<Rightarrow> nat \<Rightarrow> nat \<Rightarrow> group_state \<Rightarrow> group_state option" where
  "computeRhs p b tib g = do {
     tv \<leftarrow> loadPositions (gm g) (priv g ! tib);
     let dx = pbcDxAiucSycl p (xi tv) (xj tv);
     let s = sqrtReducedMass tv
               * ((comp (rc tv) XX * comp dx XX + comp (rc tv) YY * comp dx YY
                   + comp (rc tv) ZZ * comp dx ZZ) - targetLength tv);
     rhs \<leftarrow> wr (sm_rhs g) (int tib) s;
     Some (g\<lparr>sm_rhs := rhs, priv := (priv g)[tib := tv\<lparr>sol := s\<rparr>]\<rparr>)
   }"

text \<open>
  Lines 276 to 293, and 362 to 377: one matrix multiplication of the expansion. The
  variable \<^verbatim>\<open>sol\<close> declared inside the centripetal loop shadows the outer one,
  which is not read again, so one private variable holds both.
\<close>

definition convolute ::
  "kernel_args \<Rightarrow> device_memory \<Rightarrow> real list \<Rightarrow> int \<Rightarrow> nat \<Rightarrow> nat \<Rightarrow> real \<Rightarrow> real option"
where
  "convolute p m rhs ti rec n mvb = do {
     let index = int n * int (numConstraintsThreads p) + ti;
     c1 \<leftarrow> rd (a_coupledConstraintsIndices m) index;
     a \<leftarrow> rd (a_matrixA m) index;
     r \<leftarrow> rd rhs (c1 + int (c_threadsPerBlock p) * int (rec mod 2));
     Some (mvb + a * r)
   }"

definition expandStep :: "kernel_args \<Rightarrow> nat \<Rightarrow> nat \<Rightarrow> nat \<Rightarrow> group_state \<Rightarrow> group_state option" where
  "expandStep p b rec tib g = do {
     let tv = priv g ! tib;
     mvb \<leftarrow> forEach (convolute p (gm g) (sm_rhs g) (threadIndex p b tib) rec)
                [0..<nat (coupledConstraintsCount tv)] 0;
     rhs \<leftarrow> wr (sm_rhs g) (int tib + int (c_threadsPerBlock p) * int ((rec + 1) mod 2)) mvb;
     Some (g\<lparr>sm_rhs := rhs, priv := (priv g)[tib := tv\<lparr>sol := sol tv + mvb\<rparr>]\<rparr>)
   }"

definition expansion :: "kernel_args \<Rightarrow> nat \<Rightarrow> group_state \<Rightarrow> group_state option" where
  "expansion p b g =
     (if haveCoupledConstraints p
      then forEach (\<lambda>rec. forThreads p (expandStep p b rec)) [0..<nat (expansionOrder p)] g
      else Some g)"

text \<open>The six atomic additions of lines 309 to 314 (389 to 394, 404 to 409).\<close>

definition addCorrection :: "real list \<Rightarrow> thread_vars \<Rightarrow> Float3 \<Rightarrow> real list option" where
  "addCorrection xs tv tmp = do {
     xs \<leftarrow> atomicFetchAdd xs (pair_i tv * DIM + XX) (- comp tmp XX * inverseMassi tv);
     xs \<leftarrow> atomicFetchAdd xs (pair_i tv * DIM + YY) (- comp tmp YY * inverseMassi tv);
     xs \<leftarrow> atomicFetchAdd xs (pair_i tv * DIM + ZZ) (- comp tmp ZZ * inverseMassi tv);
     xs \<leftarrow> atomicFetchAdd xs (pair_j tv * DIM + XX) (comp tmp XX * inverseMassj tv);
     xs \<leftarrow> atomicFetchAdd xs (pair_j tv * DIM + YY) (comp tmp YY * inverseMassj tv);
     atomicFetchAdd xs (pair_j tv * DIM + ZZ) (comp tmp ZZ * inverseMassj tv)
   }"

text \<open>Lines 296 to 315: the multiplier of the first projection and its correction.\<close>

definition applyProjection :: "kernel_args \<Rightarrow> nat \<Rightarrow> nat \<Rightarrow> group_state \<Rightarrow> group_state option" where
  "applyProjection p b tib g = do {
     let tv = (priv g ! tib)\<lparr>lagrangeScaled := sqrtReducedMass (priv g ! tib) * sol (priv g ! tib)\<rparr>;
     let tmp = scale3 (rc tv) (lagrangeScaled tv);
     xp \<leftarrow> (if \<not> isDummyThread tv then addCorrection (a_xp (gm g)) tv tmp
            else Some (a_xp (gm g)));
     Some (g\<lparr>gm := (gm g)\<lparr>a_xp := xp\<rparr>, priv := (priv g)[tib := tv]\<rparr>)
   }"

text \<open>Lines 339 to 352: the projection of the centripetal correction.\<close>

definition centripetalProj :: "real \<Rightarrow> real \<Rightarrow> real \<Rightarrow> real option" where
  "centripetalProj srm len dlen2 =
     (if dlen2 > 0 then do {
        r \<leftarrow> rsqrt dlen2;
        Some (srm * (len - dlen2 * r))
      }
      else Some (srm * len))"

text \<open>Lines 326 to 355.\<close>

definition centripetalRhs :: "kernel_args \<Rightarrow> nat \<Rightarrow> nat \<Rightarrow> group_state \<Rightarrow> group_state option" where
  "centripetalRhs p b tib g = do {
     tv \<leftarrow> loadPositions (gm g) (priv g ! tib);
     let dx = pbcDxAiucSycl p (xi tv) (xj tv);
     let len2 = targetLength tv * targetLength tv;
     let dlen2 = 2 * len2 - (comp dx XX * comp dx XX + comp dx YY * comp dx YY
                             + comp dx ZZ * comp dx ZZ);
     proj \<leftarrow> centripetalProj (sqrtReducedMass tv) (targetLength tv) dlen2;
     rhs \<leftarrow> wr (sm_rhs g) (int tib) proj;
     Some (g\<lparr>sm_rhs := rhs, priv := (priv g)[tib := tv\<lparr>sol := proj\<rparr>]\<rparr>)
   }"

text \<open>Lines 380 to 395.\<close>

definition centripetalApply :: "kernel_args \<Rightarrow> nat \<Rightarrow> nat \<Rightarrow> group_state \<Rightarrow> group_state option" where
  "centripetalApply p b tib g = do {
     let tv0 = priv g ! tib;
     let sqrtmu_sol = sqrtReducedMass tv0 * sol tv0;
     let tv = tv0\<lparr>lagrangeScaled := lagrangeScaled tv0 + sqrtmu_sol\<rparr>;
     xp \<leftarrow> (if \<not> isDummyThread tv then addCorrection (a_xp (gm g)) tv (scale3 (rc tv) sqrtmu_sol)
            else Some (a_xp (gm g)));
     Some (g\<lparr>gm := (gm g)\<lparr>a_xp := xp\<rparr>, priv := (priv g)[tib := tv]\<rparr>)
   }"

text \<open>Lines 320 to 396: one iteration of the correction for centripetal effects.\<close>

definition centripetalIteration :: "kernel_args \<Rightarrow> nat \<Rightarrow> nat \<Rightarrow> group_state \<Rightarrow> group_state option" where
  "centripetalIteration p b iter g = do {
     g \<leftarrow> forThreads p (centripetalRhs p b) g;
     g \<leftarrow> expansion p b g;
     forThreads p (centripetalApply p b) g
   }"

text \<open>Lines 398 to 411.\<close>

definition updateVelocity :: "kernel_args \<Rightarrow> nat \<Rightarrow> nat \<Rightarrow> group_state \<Rightarrow> group_state option" where
  "updateVelocity p b tib g =
     (if \<not> isDummyThread (priv g ! tib) then do {
        let tv = priv g ! tib;
        let tmp = scale3 (scale3 (rc tv) (invdt p)) (lagrangeScaled tv);
        v \<leftarrow> addCorrection (a_v (gm g)) tv tmp;
        Some (g\<lparr>gm := (gm g)\<lparr>a_v := v\<rparr>\<rparr>)
      }
      else Some g)"

text \<open>Lines 429 to 435: the virial of one constraint, stored to local memory.\<close>

definition storeVirial :: "kernel_args \<Rightarrow> nat \<Rightarrow> nat \<Rightarrow> group_state \<Rightarrow> group_state option" where
  "storeVirial p b tib g = do {
     let tv = priv g ! tib;
     let mult = targetLength tv * lagrangeScaled tv;
     let n = int (c_threadsPerBlock p);
     sm \<leftarrow> wr (sm_threadVirial g) (0 * n + int tib) (mult * comp (rc tv) XX * comp (rc tv) XX);
     sm \<leftarrow> wr sm (1 * n + int tib) (mult * comp (rc tv) XX * comp (rc tv) YY);
     sm \<leftarrow> wr sm (2 * n + int tib) (mult * comp (rc tv) XX * comp (rc tv) ZZ);
     sm \<leftarrow> wr sm (3 * n + int tib) (mult * comp (rc tv) YY * comp (rc tv) YY);
     sm \<leftarrow> wr sm (4 * n + int tib) (mult * comp (rc tv) YY * comp (rc tv) ZZ);
     sm \<leftarrow> wr sm (5 * n + int tib) (mult * comp (rc tv) ZZ * comp (rc tv) ZZ);
     Some (g\<lparr>sm_threadVirial := sm\<rparr>)
   }"

text \<open>Lines 451 to 458: one round of the reduction, for one work-item.\<close>

definition addUpper :: "nat \<Rightarrow> nat \<Rightarrow> nat \<Rightarrow> nat \<Rightarrow> real list \<Rightarrow> real list option" where
  "addUpper blockSize dividedAt tib d sm = do {
     lower \<leftarrow> rd sm (int d * int blockSize + int tib);
     upper \<leftarrow> rd sm (int d * int blockSize + (int tib + int dividedAt));
     wr sm (int d * int blockSize + int tib) (lower + upper)
   }"

definition reduceStep :: "kernel_args \<Rightarrow> nat \<Rightarrow> nat \<Rightarrow> group_state \<Rightarrow> group_state option" where
  "reduceStep p dividedAt tib g =
     (if tib < dividedAt then do {
        sm \<leftarrow> forEach (addUpper (c_threadsPerBlock p) dividedAt tib) [0..<6] (sm_threadVirial g);
        Some (g\<lparr>sm_threadVirial := sm\<rparr>)
      }
      else Some g)"

text \<open>
  Lines 448 to 467. \<open>divideBy\<close> starts at 2 and is doubled, so it is positive
  throughout; the test for it only serves the termination proof. Both kinds of barrier
  that end a round separate it from the next one.
\<close>

function reduceLoop :: "kernel_args \<Rightarrow> nat \<Rightarrow> group_state \<Rightarrow> group_state option" where
  "reduceLoop p divideBy g =
     (if 0 < divideBy \<and> divideBy \<le> c_threadsPerBlock p
      then (case forThreads p (reduceStep p (c_threadsPerBlock p div divideBy)) g of
              None \<Rightarrow> None
            | Some g' \<Rightarrow> reduceLoop p (divideBy * 2) g')
      else Some g)"
  by pat_completeness auto
termination
  by (relation "measure (\<lambda>(p, divideBy, g). c_threadsPerBlock p + 1 - divideBy)") auto

declare reduceLoop.simps [simp del]

text \<open>Lines 469 to 472.\<close>

definition addVirial :: "kernel_args \<Rightarrow> nat \<Rightarrow> nat \<Rightarrow> group_state \<Rightarrow> group_state option" where
  "addVirial p b tib g =
     (if tib < 6 then do {
        s \<leftarrow> rd (sm_threadVirial g) (int tib * int (c_threadsPerBlock p));
        vir \<leftarrow> atomicFetchAdd (a_virialScaled (gm g)) (int tib) s;
        Some (g\<lparr>gm := (gm g)\<lparr>a_virialScaled := vir\<rparr>\<rparr>)
      }
      else Some g)"

text \<open>Lines 413 to 473.\<close>

definition virial :: "kernel_args \<Rightarrow> nat \<Rightarrow> group_state \<Rightarrow> group_state option" where
  "virial p b g = do {
     g \<leftarrow> forThreads p (storeVirial p b) g;
     g \<leftarrow> reduceLoop p 2 g;
     forThreads p (addVirial p b) g
   }"

subsection \<open>A work-group and the grid\<close>

text \<open>
  The local accessors hold \<open>c_threadsPerBlock\<close> directions, \<open>c_threadsPerBlock\<close>
  right-hand sides and, with the virial, \<open>6 * c_threadsPerBlock\<close> floats (lines 148 to
  171). The multiplier starts at zero (line 182).
\<close>

definition uninitialisedVars :: "kernel_args \<Rightarrow> thread_vars" where
  "uninitialisedVars p =
     \<lparr>pair_i = 0, pair_j = 0, isDummyThread = False, targetLength = uninitialised p,
      inverseMassi = uninitialised p, inverseMassj = uninitialised p,
      sqrtReducedMass = uninitialised p,
      xi = (uninitialised p, uninitialised p, uninitialised p),
      xj = (uninitialised p, uninitialised p, uninitialised p),
      rc = (uninitialised p, uninitialised p, uninitialised p),
      coupledConstraintsCount = 0, sol = uninitialised p, lagrangeScaled = 0\<rparr>"

text \<open>The private variables of the work-items of a group, as the body declares them.\<close>

definition privateVars :: "kernel_args \<Rightarrow> thread_vars list" where
  "privateVars p = replicate (c_threadsPerBlock p) (uninitialisedVars p)"

text \<open>
  The body of the kernel, lines 173 to 474, run by the work-items of work-group \<open>b\<close> on
  the device memory and the local memory of \<open>g\<close>.
\<close>

definition lincsKernelBody :: "kernel_args \<Rightarrow> nat \<Rightarrow> group_state \<Rightarrow> group_state option" where
  "lincsKernelBody p b g = do {
     g \<leftarrow> forThreads p (collectData p b) (g\<lparr>priv := privateVars p\<rparr>);
     g \<leftarrow> forThreads p (constructMatrix p b) g;
     g \<leftarrow> forThreads p (computeRhs p b) g;
     g \<leftarrow> expansion p b g;
     g \<leftarrow> forThreads p (applyProjection p b) g;
     g \<leftarrow> forEach (centripetalIteration p b) [0..<nat (numIterations p)] g;
     g \<leftarrow> (if updateVelocities p then forThreads p (updateVelocity p b) g else Some g);
     (if computeVirial p then virial p b g else Some g)
   }"

text \<open>The local accessors of lines 148 to 171, over the device memory \<open>m\<close>.\<close>

definition initialGroup :: "kernel_args \<Rightarrow> device_memory \<Rightarrow> group_state" where
  "initialGroup p m =
     \<lparr>gm = m,
      sm_r = replicate (c_threadsPerBlock p) (uninitialised p, uninitialised p, uninitialised p),
      sm_rhs = replicate (c_threadsPerBlock p) (uninitialised p),
      sm_threadVirial =
        (if computeVirial p then replicate (c_threadsPerBlock p * 6) (uninitialised p) else []),
      priv = privateVars p\<rparr>"

text \<open>The kernel of lines 108 to 475 for work-group \<open>b\<close>: the body with these accessors.\<close>

definition lincsKernel :: "kernel_args \<Rightarrow> nat \<Rightarrow> device_memory \<Rightarrow> group_state option" where
  "lincsKernel p b m = lincsKernelBody p b (initialGroup p m)"

text \<open>
  Lines 481 to 499: the range of \<open>numConstraintsThreads\<close> work-items in groups of
  \<open>c_threadsPerBlock\<close>. Groups do not synchronise with each other; they are run one
  after the other here.
\<close>

definition launchLincsKernel :: "kernel_args \<Rightarrow> device_memory \<Rightarrow> device_memory option" where
  "launchLincsKernel p m =
     (if c_threadsPerBlock p = 0 \<or> numConstraintsThreads p mod c_threadsPerBlock p \<noteq> 0 then None
      else forEach (\<lambda>b m. map_option gm (lincsKernel p b m))
             [0..<numConstraintsThreads p div c_threadsPerBlock p] m)"

section \<open>Notions used in the statements\<close>

subsection \<open>The centripetal correction\<close>

text \<open>The corrected deviation \<open>2 r0\<^sup>2 - |dx|\<^sup>2\<close> of a work-item that has loaded its positions.\<close>

definition centripetalDlen2 :: "kernel_args \<Rightarrow> thread_vars \<Rightarrow> real" where
  "centripetalDlen2 p tv =
     2 * (targetLength tv)\<^sup>2
       - dot3 (pbcDxAiucSycl p (xi tv) (xj tv)) (pbcDxAiucSycl p (xi tv) (xj tv))"

subsection \<open>An example: one constraint, no periodic boundary\<close>

text \<open>Without periodic boundary conditions the displacement is the difference.\<close>

definition pbcNone :: "Float3 \<Rightarrow> Float3 \<Rightarrow> Float3" where
  "pbcNone a b = (comp a XX - comp b XX, comp a YY - comp b YY, comp a ZZ - comp b ZZ)"

text \<open>
  Two atoms of mass 2 at distance 1 along the first axis, to be held at distance 5; the
  unconstrained step has put them at \<open>(7, 3, 0)\<close> and at the origin.
\<close>

definition exArgs :: "bool \<Rightarrow> kernel_args" where
  "exArgs uv = \<lparr>updateVelocities = uv, computeVirial = False, haveCoupledConstraints = False,
     c_threadsPerBlock = 1, numConstraintsThreads = 1, numIterations = 1, expansionOrder = 4,
     invdt = 10, pbcDxAiucSycl = pbcNone, uninitialised = 0\<rparr>"

definition exMemory :: device_memory where
  "exMemory = \<lparr>a_constraints = [(0, 1)], a_constraintsTargetLengths = [5],
     a_coupledConstraintsCounts = [], a_coupledConstraintsIndices = [], a_massFactors = [],
     a_matrixA = [], a_inverseMasses = [1 / 2, 1 / 2], a_x = [(1, 0, 0), (0, 0, 0)],
     a_xp = [7, 3, 0, 0, 0, 0], a_v = [0, 0, 0, 0, 0, 0], a_virialScaled = [0, 0, 0, 0, 0, 0]\<rparr>"

text \<open>The private variables of its work-item, and the group after the first projection.\<close>

definition exVars :: "Float3 \<Rightarrow> Float3 \<Rightarrow> real \<Rightarrow> real \<Rightarrow> thread_vars" where
  "exVars x0 x1 s lam =
     \<lparr>pair_i = 0, pair_j = 1, isDummyThread = False, targetLength = 5,
      inverseMassi = 1 / 2, inverseMassj = 1 / 2, sqrtReducedMass = 1,
      xi = x0, xj = x1, rc = (1, 0, 0),
      coupledConstraintsCount = 0, sol = s, lagrangeScaled = lam\<rparr>"

definition exGroup :: "real list \<Rightarrow> real list \<Rightarrow> real \<Rightarrow> thread_vars \<Rightarrow> group_state" where
  "exGroup xp v r tv =
     \<lparr>gm = exMemory\<lparr>a_xp := xp, a_v := v\<rparr>, sm_r = [(1, 0, 0)], sm_rhs = [r],
      sm_threadVirial = [], priv = [tv]\<rparr>"

definition consts_of ::
  "thread_vars \<Rightarrow> int \<times> int \<times> bool \<times> real \<times> real \<times> real \<times> real \<times> Float3" where
  "consts_of tv = (pair_i tv, pair_j tv, isDummyThread tv, targetLength tv, inverseMassi tv,
                   inverseMassj tv, sqrtReducedMass tv, rc tv)"

definition sameInputs :: "device_memory \<Rightarrow> device_memory \<Rightarrow> bool" where
  "sameInputs m m' \<longleftrightarrow>
     a_constraints m' = a_constraints m \<and>
     a_constraintsTargetLengths m' = a_constraintsTargetLengths m \<and>
     a_coupledConstraintsCounts m' = a_coupledConstraintsCounts m \<and>
     a_coupledConstraintsIndices m' = a_coupledConstraintsIndices m \<and>
     a_massFactors m' = a_massFactors m \<and>
     a_inverseMasses m' = a_inverseMasses m \<and>
     a_x m' = a_x m"

datatype part = Positions | Velocities | Virial | Multipliers

definition change :: "part set \<Rightarrow> kernel_args \<Rightarrow> group_state \<Rightarrow> group_state \<Rightarrow> bool" where
  "change W p g g' \<longleftrightarrow>
     sameInputs (gm g) (gm g') \<and>
     (Positions \<in> W \<or> a_xp (gm g') = a_xp (gm g)) \<and>
     (Velocities \<in> W \<or> a_v (gm g') = a_v (gm g)) \<and>
     (Virial \<in> W \<or> a_virialScaled (gm g') = a_virialScaled (gm g)) \<and>
     (Multipliers \<in> W \<or> map lagrangeScaled (priv g') = map lagrangeScaled (priv g)) \<and>
     (haveCoupledConstraints p \<or> a_matrixA (gm g') = a_matrixA (gm g)) \<and>
     length (a_xp (gm g')) = length (a_xp (gm g)) \<and>
     length (a_v (gm g')) = length (a_v (gm g)) \<and>
     length (a_virialScaled (gm g')) = length (a_virialScaled (gm g)) \<and>
     length (sm_r g') = length (sm_r g) \<and>
     length (sm_rhs g') = length (sm_rhs g) \<and>
     length (sm_threadVirial g') = length (sm_threadVirial g) \<and>
     length (priv g') = length (priv g) \<and>
     map consts_of (priv g') = map consts_of (priv g)"

definition correction :: "thread_vars \<Rightarrow> real \<Rightarrow> int \<Rightarrow> real" where
  "correction tv lam k =
     (if isDummyThread tv then 0
      else (if k = pair_i tv * DIM + XX then - (comp (rc tv) XX * lam) * inverseMassi tv else 0)
         + (if k = pair_i tv * DIM + YY then - (comp (rc tv) YY * lam) * inverseMassi tv else 0)
         + (if k = pair_i tv * DIM + ZZ then - (comp (rc tv) ZZ * lam) * inverseMassi tv else 0)
         + (if k = pair_j tv * DIM + XX then comp (rc tv) XX * lam * inverseMassj tv else 0)
         + (if k = pair_j tv * DIM + YY then comp (rc tv) YY * lam * inverseMassj tv else 0)
         + (if k = pair_j tv * DIM + ZZ then comp (rc tv) ZZ * lam * inverseMassj tv else 0))"

definition totalCorrection :: "group_state \<Rightarrow> int \<Rightarrow> real" where
  "totalCorrection g k =
     (\<Sum>t < length (priv g). correction (priv g ! t) (lagrangeScaled (priv g ! t)) k)"

definition preStepDirection :: "kernel_args \<Rightarrow> device_memory \<Rightarrow> int \<Rightarrow> int \<Rightarrow> Float3 option" where
  "preStepDirection p m i j = do {
     x0 \<leftarrow> rd (a_x m) i;
     x1 \<leftarrow> rd (a_x m) j;
     rlen \<leftarrow> rsqrt (dot3 (pbcDxAiucSycl p x0 x1) (pbcDxAiucSycl p x0 x1));
     Some (scale3 (pbcDxAiucSycl p x0 x1) rlen)
   }"

definition collected :: "kernel_args \<Rightarrow> device_memory \<Rightarrow> int \<Rightarrow> thread_vars \<Rightarrow> bool" where
  "collected p m ti tv \<longleftrightarrow>
     rd (a_constraints m) ti = Some (pair_i tv, pair_j tv) \<and>
     isDummyThread tv = (pair_i tv = - 1) \<and>
     (if isDummyThread tv
      then targetLength tv = 0 \<and> inverseMassi tv = 0 \<and> inverseMassj tv = 0 \<and>
           sqrtReducedMass tv = 0 \<and> rc tv = zero3
      else rd (a_constraintsTargetLengths m) ti = Some (targetLength tv) \<and>
           rd (a_inverseMasses m) (pair_i tv) = Some (inverseMassi tv) \<and>
           rd (a_inverseMasses m) (pair_j tv) = Some (inverseMassj tv) \<and>
           rsqrt (inverseMassi tv + inverseMassj tv) = Some (sqrtReducedMass tv) \<and>
           preStepDirection p m (pair_i tv) (pair_j tv) = Some (rc tv))"

definition collectedAll :: "kernel_args \<Rightarrow> nat \<Rightarrow> device_memory \<Rightarrow> group_state \<Rightarrow> bool" where
  "collectedAll p b m g \<longleftrightarrow>
     length (priv g) = c_threadsPerBlock p \<and>
     (\<forall>t < c_threadsPerBlock p. collected p m (threadIndex p b t) (priv g ! t))"

definition posFormula :: "real list \<Rightarrow> group_state \<Rightarrow> bool" where
  "posFormula xp0 g \<longleftrightarrow>
     length (a_xp (gm g)) = length xp0 \<and>
     (\<forall>k < length xp0. a_xp (gm g) ! k = xp0 ! k + totalCorrection g (int k))"




definition comSum :: "(nat \<Rightarrow> real) \<Rightarrow> real list \<Rightarrow> nat \<Rightarrow> real" where
  "comSum mass xs d = (\<Sum>n < length xs. if n mod 3 = d then mass (n div 3) * xs ! n else 0)"




definition virialTensor :: "thread_vars \<Rightarrow> int \<Rightarrow> int \<Rightarrow> real" where
  "virialTensor tv a b = targetLength tv * lagrangeScaled tv * comp (rc tv) a * comp (rc tv) b"









text \<open>
  Three atoms of mass 2 on a line, the middle one bound to both its neighbours at
  distance 1: two constraints, each coupled to the other. The unconstrained step has
  put the outer atoms at distance 2 from the middle one.
\<close>

definition cArgs :: kernel_args where
  "cArgs = \<lparr>updateVelocities = False, computeVirial = False, haveCoupledConstraints = True,
     c_threadsPerBlock = 2, numConstraintsThreads = 2, numIterations = 1, expansionOrder = 1,
     invdt = 10, pbcDxAiucSycl = pbcNone, uninitialised = 0\<rparr>"

definition cMemory :: device_memory where
  "cMemory = \<lparr>a_constraints = [(0, 1), (1, 2)], a_constraintsTargetLengths = [1, 1],
     a_coupledConstraintsCounts = [1, 1], a_coupledConstraintsIndices = [1, 0],
     a_massFactors = [- 1 / 2, - 1 / 2], a_matrixA = [0, 0],
     a_inverseMasses = [1 / 2, 1 / 2, 1 / 2], a_x = [(1, 0, 0), (0, 0, 0), (- 1, 0, 0)],
     a_xp = [2, 0, 0, 0, 0, 0, - 2, 0, 0], a_v = [0, 0, 0, 0, 0, 0, 0, 0, 0],
     a_virialScaled = [0, 0, 0, 0, 0, 0]\<rparr>"

definition cVars :: "int \<Rightarrow> int \<Rightarrow> Float3 \<Rightarrow> Float3 \<Rightarrow> int \<Rightarrow> real \<Rightarrow> thread_vars" where
  "cVars i j x0 x1 cnt s =
     \<lparr>pair_i = i, pair_j = j, isDummyThread = False, targetLength = 1,
      inverseMassi = 1 / 2, inverseMassj = 1 / 2, sqrtReducedMass = 1,
      xi = x0, xj = x1, rc = (1, 0, 0),
      coupledConstraintsCount = cnt, sol = s, lagrangeScaled = 0\<rparr>"

definition cGroup :: "real list \<Rightarrow> real list \<Rightarrow> thread_vars \<Rightarrow> thread_vars \<Rightarrow> group_state" where
  "cGroup A rhs tv0 tv1 =
     \<lparr>gm = cMemory\<lparr>a_matrixA := A\<rparr>, sm_r = [(1, 0, 0), (1, 0, 0)], sm_rhs = rhs,
      sm_threadVirial = [], priv = [tv0, tv1]\<rparr>"

subsection \<open>Work-groups with local memory of their own\<close>










subsection \<open>The naive solve of a single pair\<close>

text \<open>
  One constraint with no coupling, after the words of the specification: the direction
  is the normalised displacement before the step; the right-hand side is
  \<open>b = sqrt reducedMass * (direction \<bullet> (xprime\<^sub>i - xprime\<^sub>j) - r0)\<close> and the solution of
  \<open>(I - A) s = b\<close> is \<open>s = b\<close>; the multiplier is \<open>sqrt reducedMass * s\<close>; the end points
  move by \<open>- lambda * inverseMass\<^sub>i * direction\<close> and \<open>lambda * inverseMass\<^sub>j * direction\<close>;
  every centripetal pass does the same with \<open>r0 - sqrt (2 r0\<^sup>2 - |dx|\<^sup>2)\<close> in place of the
  projection.
\<close>

record single_pair =
  displacement :: "Float3 \<Rightarrow> Float3 \<Rightarrow> Float3"
  before_i :: Float3
  before_j :: Float3
  invMass_i :: real
  invMass_j :: real
  pairLength :: real

definition moved :: "Float3 \<Rightarrow> real \<Rightarrow> Float3 \<Rightarrow> Float3" where
  "moved x c d = (comp x XX + c * comp d XX, comp x YY + c * comp d YY, comp x ZZ + c * comp d ZZ)"

definition naiveDirection :: "single_pair \<Rightarrow> Float3" where
  "naiveDirection q =
     (let dx = displacement q (before_i q) (before_j q) in scale3 dx (1 / sqrt (dot3 dx dx)))"

definition naiveSqrtReducedMass :: "single_pair \<Rightarrow> real" where
  "naiveSqrtReducedMass q = sqrt (1 / (invMass_i q + invMass_j q))"

definition naiveCorrect :: "single_pair \<Rightarrow> real \<Rightarrow> Float3 \<times> Float3 \<Rightarrow> Float3 \<times> Float3" where
  "naiveCorrect q lam xs =
     (moved (fst xs) (- (lam * invMass_i q)) (naiveDirection q),
      moved (snd xs) (lam * invMass_j q) (naiveDirection q))"

definition naiveProjection :: "single_pair \<Rightarrow> Float3 \<times> Float3 \<Rightarrow> real" where
  "naiveProjection q xs =
     naiveSqrtReducedMass q
       * (dot3 (naiveDirection q) (displacement q (fst xs) (snd xs)) - pairLength q)"

definition naiveCentripetal :: "single_pair \<Rightarrow> Float3 \<times> Float3 \<Rightarrow> real" where
  "naiveCentripetal q xs =
     (let dx = displacement q (fst xs) (snd xs);
          dlen2 = 2 * (pairLength q)\<^sup>2 - dot3 dx dx
      in naiveSqrtReducedMass q * (if dlen2 > 0 then pairLength q - sqrt dlen2 else pairLength q))"

fun naivePasses ::
  "single_pair \<Rightarrow> nat \<Rightarrow> (Float3 \<times> Float3) \<times> real \<Rightarrow> (Float3 \<times> Float3) \<times> real"
where
  "naivePasses q 0 s = s"
| "naivePasses q (Suc n) s =
     (let lam = naiveSqrtReducedMass q * naiveCentripetal q (fst s)
      in naivePasses q n (naiveCorrect q lam (fst s), snd s + lam))"

definition naiveSinglePairSolve ::
  "single_pair \<Rightarrow> nat \<Rightarrow> Float3 \<times> Float3 \<Rightarrow> (Float3 \<times> Float3) \<times> real"
where
  "naiveSinglePairSolve q n xs =
     (let lam = naiveSqrtReducedMass q * naiveProjection q xs
      in naivePasses q n (naiveCorrect q lam xs, lam))"

text \<open>The pair that a constraint of the device memory stands for, and its two positions.\<close>

definition constraintPair :: "kernel_args \<Rightarrow> device_memory \<Rightarrow> int \<Rightarrow> single_pair option" where
  "constraintPair p m ti = do {
     pair \<leftarrow> rd (a_constraints m) ti;
     len \<leftarrow> rd (a_constraintsTargetLengths m) ti;
     imi \<leftarrow> rd (a_inverseMasses m) (fst pair);
     imj \<leftarrow> rd (a_inverseMasses m) (snd pair);
     x0 \<leftarrow> rd (a_x m) (fst pair);
     x1 \<leftarrow> rd (a_x m) (snd pair);
     Some \<lparr>displacement = pbcDxAiucSycl p, before_i = x0, before_j = x1,
           invMass_i = imi, invMass_j = imj, pairLength = len\<rparr>
   }"

definition pairPositions :: "real list \<Rightarrow> int \<Rightarrow> int \<Rightarrow> (Float3 \<times> Float3) option" where
  "pairPositions xs i j = do {
     a \<leftarrow> loadAtom xs i;
     b \<leftarrow> loadAtom xs j;
     Some (a, b)
   }"

text \<open>
  Work-item \<open>t\<close> of work-group \<open>b\<close> holds a constraint between two different atoms, and
  no other work-item of the group holds a constraint on either of them.
\<close>

definition isolatedPair :: "kernel_args \<Rightarrow> nat \<Rightarrow> device_memory \<Rightarrow> nat \<Rightarrow> int \<Rightarrow> int \<Rightarrow> bool" where
  "isolatedPair p b m t i j \<longleftrightarrow>
     t < c_threadsPerBlock p \<and> rd (a_constraints m) (threadIndex p b t) = Some (i, j) \<and>
     i \<noteq> - 1 \<and> i \<noteq> j \<and>
     (\<forall>u < c_threadsPerBlock p. u \<noteq> t \<longrightarrow>
        (case rd (a_constraints m) (threadIndex p b u) of
           None \<Rightarrow> True
         | Some (i', j') \<Rightarrow> i' = - 1 \<or> (i' \<noteq> i \<and> i' \<noteq> j \<and> j' \<noteq> i \<and> j' \<noteq> j)))"





section \<open>Properties of the steps\<close>

subsection \<open>Buffers and loops\<close>

lemma wr_Some: "wr xs k v = Some ys \<Longrightarrow> 0 \<le> k \<and> k < int (length xs) \<and> ys = xs[nat k := v]"
  by (auto simp: wr_def split: if_splits)



lemma rsqrt_pos: "0 < x \<Longrightarrow> rsqrt x = Some (1 / sqrt x)"
  by (simp add: rsqrt_def)

lemma sqrt_16: "sqrt 16 = 4"
  using real_sqrt_abs[of 4] by simp

lemma comp_simps:
  "comp (x, y, z) XX = x" "comp (x, y, z) YY = y" "comp (x, y, z) ZZ = z"
  by (simp_all add: comp_def XX_def YY_def ZZ_def)

lemma change_refl: "change W p g g"
  by (simp add: change_def sameInputs_def)

lemma change_trans: "change W p g g' \<Longrightarrow> change W p g' g'' \<Longrightarrow> change W p g g''"
  unfolding change_def sameInputs_def by (elim conjE, intro conjI) (simp_all, metis+)


lemma forEach_inv:
  assumes "forEach f xs s = Some s'" and "I s"
    and "\<And>x a a'. x \<in> set xs \<Longrightarrow> I a \<Longrightarrow> f x a = Some a' \<Longrightarrow> I a'"
  shows "I s'"
  using assms
proof (induction xs arbitrary: s)
  case Nil
  then show ?case by simp
next
  case (Cons x xs)
  from Cons.prems(1) obtain a where fa: "f x s = Some a" and rest: "forEach f xs a = Some s'"
    by (auto split: option.splits)
  have "I a" using Cons.prems(2,3) fa by auto
  then show ?case using Cons.IH[OF rest] Cons.prems(3) by auto
qed

lemma forEach_rem:
  assumes "forEach f xs s = Some s'" and "I xs s"
    and "\<And>x ys a a'. I (x # ys) a \<Longrightarrow> f x a = Some a' \<Longrightarrow> I ys a'"
  shows "I [] s'"
  using assms
proof (induction xs arbitrary: s)
  case Nil
  then show ?case by simp
next
  case (Cons x xs)
  from Cons.prems(1) obtain a where fa: "f x s = Some a" and rest: "forEach f xs a = Some s'"
    by (auto split: option.splits)
  have "I xs a" using Cons.prems(2,3) fa by blast
  then show ?case using Cons.IH[OF rest] Cons.prems(3) by blast
qed


lemma forEach_change:
  assumes "forEach f xs g = Some g'"
    and "\<And>x a a'. f x a = Some a' \<Longrightarrow> change W p a a'"
  shows "change W p g g'"
  using assms(1)
  by (rule forEach_inv[where I = "change W p g"]) (auto intro: change_refl change_trans assms(2))

lemma forThreads_change:
  assumes "forThreads p f g = Some g'"
    and "\<And>t a a'. f t a = Some a' \<Longrightarrow> change W p a a'"
  shows "change W p g g'"
  using assms unfolding forThreads_def by (rule forEach_change)

lemma map_update_same: "f y = f (xs ! k) \<Longrightarrow> map f (xs[k := y]) = map f xs"
  by (metis list_update_id map_update)

lemma constructMatrix_change: "constructMatrix p b tib g = Some g' \<Longrightarrow> change {} p g g'"
  by (auto simp: constructMatrix_def Let_def bind_eq_Some_conv change_def sameInputs_def
        consts_of_def map_update_same split: if_splits)

lemma loadPositions_consts:
  "loadPositions m tv = Some tv' \<Longrightarrow>
     consts_of tv' = consts_of tv \<and> lagrangeScaled tv' = lagrangeScaled tv"
  by (auto simp: loadPositions_def bind_eq_Some_conv consts_of_def split: if_splits)

lemma computeRhs_change: "computeRhs p b tib g = Some g' \<Longrightarrow> change {} p g g'"
  by (auto simp: computeRhs_def Let_def bind_eq_Some_conv change_def sameInputs_def
        consts_of_def map_update_same dest!: wr_Some loadPositions_consts)



















lemma correction_zero: "correction tv 0 k = 0"
  by (simp add: correction_def)









lemma collectData_effect:
  assumes "collectData p b tib g = Some g'"
  shows "\<exists>tv smr. g' = g\<lparr>sm_r := smr, priv := (priv g)[tib := tv]\<rparr>
           \<and> length smr = length (sm_r g) \<and> collected p (gm g) (threadIndex p b tib) tv
           \<and> lagrangeScaled tv = 0 \<and> threadIndex p b tib < int (length (sm_r g))"
proof -
  from assms obtain pr tv smr where
    pr: "rd (a_constraints (gm g)) (threadIndex p b tib) = Some pr" and
    tv: "(if fst pr = - 1
            then Some \<lparr>pair_i = fst pr, pair_j = snd pr, isDummyThread = True, targetLength = 0,
                   inverseMassi = 0, inverseMassj = 0, sqrtReducedMass = 0,
                   xi = zero3, xj = zero3, rc = zero3,
                   coupledConstraintsCount = 0, sol = 0, lagrangeScaled = 0\<rparr>
            else do {
              len \<leftarrow> rd (a_constraintsTargetLengths (gm g)) (threadIndex p b tib);
              imi \<leftarrow> rd (a_inverseMasses (gm g)) (fst pr);
              imj \<leftarrow> rd (a_inverseMasses (gm g)) (snd pr);
              srm \<leftarrow> rsqrt (imi + imj);
              x0 \<leftarrow> rd (a_x (gm g)) (fst pr);
              x1 \<leftarrow> rd (a_x (gm g)) (snd pr);
              let dx = pbcDxAiucSycl p x0 x1;
              rlen \<leftarrow> rsqrt (comp dx XX * comp dx XX + comp dx YY * comp dx YY
                              + comp dx ZZ * comp dx ZZ);
              Some \<lparr>pair_i = fst pr, pair_j = snd pr, isDummyThread = False, targetLength = len,
                   inverseMassi = imi, inverseMassj = imj, sqrtReducedMass = srm,
                   xi = x0, xj = x1, rc = scale3 dx rlen,
                   coupledConstraintsCount = 0, sol = 0, lagrangeScaled = 0\<rparr>
            }) = Some tv" and
    smr: "wr (sm_r g) (threadIndex p b tib) (rc tv) = Some smr" and
    g': "g' = g\<lparr>sm_r := smr, priv := (priv g)[tib := tv]\<rparr>"
    by (auto simp: collectData_def Let_def bind_eq_Some_conv)
  have "collected p (gm g) (threadIndex p b tib) tv \<and> lagrangeScaled tv = 0"
    using tv pr
    by (cases pr)
       (auto simp: collected_def preStepDirection_def dot3_def Let_def bind_eq_Some_conv
          split: if_splits)
  then show ?thesis
    using wr_Some[OF smr] g' by (intro exI[of _ tv] exI[of _ smr]) simp
qed

lemma collect_phase:
  assumes "forThreads p (collectData p b) g0 = Some g"
    and "length (priv g0) = c_threadsPerBlock p" and "gm g0 = m"
  shows "gm g = m" and "collectedAll p b m g"
    and "length (sm_r g) = length (sm_r g0)" and "length (sm_rhs g) = length (sm_rhs g0)"
    and "length (sm_threadVirial g) = length (sm_threadVirial g0)"
    and "\<forall>t < c_threadsPerBlock p. lagrangeScaled (priv g ! t) = 0"
proof -
  define I where "I rem a \<longleftrightarrow>
     gm a = m \<and> length (priv a) = c_threadsPerBlock p \<and>
     length (sm_r a) = length (sm_r g0) \<and> length (sm_rhs a) = length (sm_rhs g0) \<and>
     length (sm_threadVirial a) = length (sm_threadVirial g0) \<and>
     (\<forall>t \<in> set rem. t < c_threadsPerBlock p) \<and>
     (\<forall>t < c_threadsPerBlock p. t \<notin> set rem \<longrightarrow> lagrangeScaled (priv a ! t) = 0) \<and>
     (\<forall>t < c_threadsPerBlock p. t \<notin> set rem \<longrightarrow> collected p m (threadIndex p b t) (priv a ! t))"
    for rem :: "nat list" and a :: group_state
  have "I [] g"
    using assms(1) unfolding forThreads_def
  proof (rule forEach_rem[where I = I])
    show "I [0..<c_threadsPerBlock p] g0"
      using assms(2,3) by (simp add: I_def)
  next
    fix x ys a a'
    assume i: "I (x # ys) a" and s: "collectData p b x a = Some a'"
    from collectData_effect[OF s] obtain tv smr where
      a': "a' = a\<lparr>sm_r := smr, priv := (priv a)[x := tv]\<rparr>" and
      l: "length smr = length (sm_r a)" and c: "collected p (gm a) (threadIndex p b x) tv"
      and z: "lagrangeScaled tv = 0"
      by blast
    show "I ys a'"
      using i c l z unfolding I_def a' by (auto simp: nth_list_update)
  qed
  then show "gm g = m" "collectedAll p b m g" "length (sm_r g) = length (sm_r g0)"
    "length (sm_rhs g) = length (sm_rhs g0)"
    "length (sm_threadVirial g) = length (sm_threadVirial g0)"
    "\<forall>t < c_threadsPerBlock p. lagrangeScaled (priv g ! t) = 0"
    by (simp_all add: I_def collectedAll_def)
qed


lemma initialGroup_fresh: "(initialGroup p m)\<lparr>priv := privateVars p\<rparr> = initialGroup p m"
  by (simp add: initialGroup_def)














subsection \<open>The example, step by step\<close>

lemma exArgs_simps:
  "updateVelocities (exArgs uv) = uv" "computeVirial (exArgs uv) = False"
  "haveCoupledConstraints (exArgs uv) = False" "c_threadsPerBlock (exArgs uv) = 1"
  "numConstraintsThreads (exArgs uv) = 1" "numIterations (exArgs uv) = 1"
  "expansionOrder (exArgs uv) = 4" "invdt (exArgs uv) = 10"
  "pbcDxAiucSycl (exArgs uv) = pbcNone" "uninitialised (exArgs uv) = 0"
  by (simp_all add: exArgs_def)

lemma forThreads_one: "c_threadsPerBlock p = 1 \<Longrightarrow> forThreads p f g = f 0 g"
  by (simp add: forThreads_def split: option.splits)

lemma rsqrt_one: "rsqrt 1 = Some 1"
  by (simp add: rsqrt_def)

lemmas index_simps = DIM_def XX_def YY_def ZZ_def threadIndex_def rd_def wr_def
  atomicLoad_def atomicFetchAdd_def loadAtom_def

lemma ex_collect:
  "forThreads (exArgs uv) (collectData (exArgs uv) 0) (initialGroup (exArgs uv) exMemory)
     = Some (exGroup [7, 3, 0, 0, 0, 0] [0, 0, 0, 0, 0, 0] 0 (exVars (1, 0, 0) (0, 0, 0) 0 0))"
  by (simp add: forThreads_one exArgs_simps collectData_def initialGroup_def privateVars_def exMemory_def
        index_simps pbcNone_def comp_def scale3_def rsqrt_one exGroup_def exVars_def)

lemma ex_matrix:
  "forThreads (exArgs uv) (constructMatrix (exArgs uv) 0) g = Some g"
  by (simp add: forThreads_one exArgs_simps constructMatrix_def)

lemma ex_rhs:
  "forThreads (exArgs uv) (computeRhs (exArgs uv) 0)
      (exGroup [7, 3, 0, 0, 0, 0] [0, 0, 0, 0, 0, 0] 0 (exVars (1, 0, 0) (0, 0, 0) 0 0))
     = Some (exGroup [7, 3, 0, 0, 0, 0] [0, 0, 0, 0, 0, 0] 2 (exVars (7, 3, 0) (0, 0, 0) 2 0))"
  by (simp add: forThreads_one exArgs_simps computeRhs_def loadPositions_def
        index_simps pbcNone_def comp_def exGroup_def exVars_def exMemory_def)

lemma ex_expansion: "expansion (exArgs uv) 0 g = Some g"
  by (simp add: expansion_def exArgs_simps)

lemma ex_apply:
  "forThreads (exArgs uv) (applyProjection (exArgs uv) 0)
      (exGroup [7, 3, 0, 0, 0, 0] [0, 0, 0, 0, 0, 0] 2 (exVars (7, 3, 0) (0, 0, 0) 2 0))
     = Some (exGroup [6, 3, 0, 1, 0, 0] [0, 0, 0, 0, 0, 0] 2 (exVars (7, 3, 0) (0, 0, 0) 2 2))"
  by (simp add: forThreads_one exArgs_simps applyProjection_def addCorrection_def
        index_simps comp_def scale3_def exGroup_def exVars_def exMemory_def)

lemma ex_centripetalRhs:
  "forThreads (exArgs uv) (centripetalRhs (exArgs uv) 0)
      (exGroup [6, 3, 0, 1, 0, 0] [0, 0, 0, 0, 0, 0] 2 (exVars (7, 3, 0) (0, 0, 0) 2 2))
     = Some (exGroup [6, 3, 0, 1, 0, 0] [0, 0, 0, 0, 0, 0] 1 (exVars (6, 3, 0) (1, 0, 0) 1 2))"
  by (simp add: forThreads_one exArgs_simps centripetalRhs_def centripetalProj_def
        loadPositions_def rsqrt_def sqrt_16
        index_simps pbcNone_def comp_def exGroup_def exVars_def exMemory_def)

lemma ex_centripetalApply:
  "forThreads (exArgs uv) (centripetalApply (exArgs uv) 0)
      (exGroup [6, 3, 0, 1, 0, 0] [0, 0, 0, 0, 0, 0] 1 (exVars (6, 3, 0) (1, 0, 0) 1 2))
     = Some (exGroup [11 / 2, 3, 0, 3 / 2, 0, 0] [0, 0, 0, 0, 0, 0] 1 (exVars (6, 3, 0) (1, 0, 0) 1 3))"
  by (simp add: forThreads_one exArgs_simps centripetalApply_def addCorrection_def
        index_simps comp_def scale3_def exGroup_def exVars_def exMemory_def)

lemma ex_velocity:
  "forThreads (exArgs True) (updateVelocity (exArgs True) 0)
      (exGroup [11 / 2, 3, 0, 3 / 2, 0, 0] [0, 0, 0, 0, 0, 0] 1 (exVars (6, 3, 0) (1, 0, 0) 1 3))
     = Some (exGroup [11 / 2, 3, 0, 3 / 2, 0, 0] [- 15, 0, 0, 15, 0, 0] 1 (exVars (6, 3, 0) (1, 0, 0) 1 3))"
  by (simp add: forThreads_one exArgs_simps updateVelocity_def addCorrection_def
        index_simps comp_def scale3_def exGroup_def exVars_def exMemory_def)

lemma ex_kernel:
  "lincsKernel (exArgs uv) 0 exMemory
     = Some (exGroup [11 / 2, 3, 0, 3 / 2, 0, 0]
               (if uv then [- 15, 0, 0, 15, 0, 0] else [0, 0, 0, 0, 0, 0]) 1
               (exVars (6, 3, 0) (1, 0, 0) 1 3))"
  using ex_velocity
  by (simp add: lincsKernel_def lincsKernelBody_def initialGroup_fresh ex_collect ex_matrix ex_rhs ex_expansion ex_apply
        centripetalIteration_def ex_centripetalRhs ex_centripetalApply exArgs_simps)






lemma launch_inv:
  assumes "launchLincsKernel p m = Some m'" and "I m"
    and "\<And>b a g. I a \<Longrightarrow> lincsKernel p b a = Some g \<Longrightarrow> I (gm g)"
  shows "I m'"
proof -
  from assms(1) have
    "forEach (\<lambda>b m. map_option gm (lincsKernel p b m))
       [0..<numConstraintsThreads p div c_threadsPerBlock p] m = Some m'"
    by (simp add: launchLincsKernel_def split: if_splits)
  then show ?thesis
    by (rule forEach_inv[where I = I]) (use assms(2,3) in auto)
qed








lemma ex_kernel_True:
  "lincsKernel (exArgs True) 0 exMemory
     = Some (exGroup [11 / 2, 3, 0, 3 / 2, 0, 0] [- 15, 0, 0, 15, 0, 0] 1
               (exVars (6, 3, 0) (1, 0, 0) 1 3))"
  using ex_kernel[of True] by simp

lemma ex_collected:
  "collected (exArgs uv) exMemory 0 (exVars x0 x1 s lam)"
  by (simp add: collected_def exVars_def exMemory_def exArgs_simps preStepDirection_def
        rd_def rsqrt_def dot3_def pbcNone_def comp_simps scale3_def)

lemma comSum_six:
  "comSum mass [a0, a1, a2, b0, b1, b2] 0 = mass 0 * a0 + mass 1 * b0"
proof -
  have s: "{..<6::nat} = {0, 1, 2, 3, 4, 5}"
    by auto
  show ?thesis
    by (simp add: comSum_def s)
qed














lemma virialTensor_symmetric: "virialTensor tv a b = virialTensor tv b a"
  by (simp add: virialTensor_def)




























lemma cArgs_simps:
  "updateVelocities cArgs = False" "computeVirial cArgs = False"
  "haveCoupledConstraints cArgs = True" "c_threadsPerBlock cArgs = 2"
  "numConstraintsThreads cArgs = 2" "numIterations cArgs = 1"
  "expansionOrder cArgs = 1" "invdt cArgs = 10"
  "pbcDxAiucSycl cArgs = pbcNone" "uninitialised cArgs = 0"
  by (simp_all add: cArgs_def)

lemma upt_2: "[0..<2] = [0, 1]"
  by (simp add: upt_rec)

lemma replicate_2: "replicate 2 x = [x, x]"
  by (simp add: numeral_2_eq_2)

lemma c_collect:
  "forThreads cArgs (collectData cArgs 0) (initialGroup cArgs cMemory)
     = Some (cGroup [0, 0] [0, 0] (cVars 0 1 (1, 0, 0) (0, 0, 0) 0 0)
                                  (cVars 1 2 (0, 0, 0) (- 1, 0, 0) 0 0))"
  by (simp add: forThreads_def upt_2 cArgs_simps collectData_def initialGroup_def privateVars_def cMemory_def
        index_simps pbcNone_def comp_def scale3_def rsqrt_one cGroup_def cVars_def
        uninitialisedVars_def Let_def replicate_2)

lemma c_matrix:
  "forThreads cArgs (constructMatrix cArgs 0)
      (cGroup [0, 0] [0, 0] (cVars 0 1 (1, 0, 0) (0, 0, 0) 0 0)
                            (cVars 1 2 (0, 0, 0) (- 1, 0, 0) 0 0))
     = Some (cGroup [- 1 / 2, - 1 / 2] [0, 0] (cVars 0 1 (1, 0, 0) (0, 0, 0) 1 0)
                                              (cVars 1 2 (0, 0, 0) (- 1, 0, 0) 1 0))"
  by (simp add: forThreads_def upt_2 cArgs_simps constructMatrix_def matrixElement_def
        cMemory_def index_simps comp_def cGroup_def cVars_def Let_def)

lemma c_rhs:
  "forThreads cArgs (computeRhs cArgs 0)
      (cGroup [- 1 / 2, - 1 / 2] [0, 0] (cVars 0 1 (1, 0, 0) (0, 0, 0) 1 0)
                                        (cVars 1 2 (0, 0, 0) (- 1, 0, 0) 1 0))
     = Some (cGroup [- 1 / 2, - 1 / 2] [1, 1] (cVars 0 1 (2, 0, 0) (0, 0, 0) 1 1)
                                              (cVars 1 2 (0, 0, 0) (- 2, 0, 0) 1 1))"
  by (simp add: forThreads_def upt_2 cArgs_simps computeRhs_def loadPositions_def
        cMemory_def index_simps pbcNone_def comp_def cGroup_def cVars_def Let_def)

lemma c_convolute:
  "forEach (convolute cArgs (cMemory\<lparr>a_matrixA := [- 1 / 2, - 1 / 2]\<rparr>) [1, 1]
              (threadIndex cArgs 0 0) 0) [0..<1] 0 = Some (- 1 / 2)"
  by (simp add: convolute_def cArgs_simps cMemory_def index_simps)

lemma expandStep_first_round:
  assumes "0 < c_threadsPerBlock p" and "length (sm_rhs g) = c_threadsPerBlock p"
  shows "forThreads p (expandStep p b 0) g = None"
proof -
  have "wr (sm_rhs g) (int 0 + int (c_threadsPerBlock p) * int ((0 + 1) mod 2)) v = None" for v
    using assms by (simp add: wr_def)
  then have "expandStep p b 0 0 g = None"
    by (simp add: expandStep_def Let_def split: option.splits)
  moreover have "[0..<c_threadsPerBlock p] = 0 # [1..<c_threadsPerBlock p]"
    using assms(1) by (simp add: upt_rec)
  ultimately show ?thesis
    by (simp add: forThreads_def)
qed

lemma expansion_first_round:
  assumes "haveCoupledConstraints p" and "0 < expansionOrder p"
    and "0 < c_threadsPerBlock p" and "length (sm_rhs g) = c_threadsPerBlock p"
  shows "expansion p b g = None"
proof -
  have "[0..<nat (expansionOrder p)] = 0 # [1..<nat (expansionOrder p)]"
    using assms(2) by (simp add: upt_rec)
  then show ?thesis
    using assms(1) expandStep_first_round[OF assms(3,4)] by (simp add: expansion_def)
qed

lemma rhs_phase_length:
  assumes "forThreads p (collectData p b) (initialGroup p m) = Some g1"
    and "forThreads p (constructMatrix p b) g1 = Some g2"
    and "forThreads p (computeRhs p b) g2 = Some g3"
  shows "length (sm_rhs g3) = c_threadsPerBlock p"
proof -
  have "change {} p g1 g2"
    using assms(2) by (rule forThreads_change) (rule constructMatrix_change)
  moreover have "change {} p g2 g3"
    using assms(3) by (rule forThreads_change) (rule computeRhs_change)
  moreover have "length (sm_rhs g1) = c_threadsPerBlock p"
    using collect_phase(4)[OF assms(1), of m] by (simp add: initialGroup_def privateVars_def)
  ultimately show ?thesis
    by (simp add: change_def)
qed











lemma comSum_nine:
  "comSum mass [a0, a1, a2, b0, b1, b2, c0, c1, c2] 0 = mass 0 * a0 + mass 1 * b0 + mass 2 * c0"
proof -
  have s: "{..<9::nat} = {0, 1, 2, 3, 4, 5, 6, 7, 8}"
    by auto
  show ?thesis
    by (simp add: comSum_def s)
qed



subsection \<open>What a phase does to the private variables of each work-item\<close>

lemma forThreads_private:
  assumes run: "forThreads p step g = Some g'"
    and len: "length (priv g) = c_threadsPerBlock p" and inv: "Inv g"
    and step: "\<And>t a a'. t < c_threadsPerBlock p \<Longrightarrow> length (priv a) = c_threadsPerBlock p
                 \<Longrightarrow> Inv a \<Longrightarrow> step t a = Some a'
                 \<Longrightarrow> length (priv a') = c_threadsPerBlock p \<and> Inv a'
                     \<and> (\<forall>u < c_threadsPerBlock p. u \<noteq> t \<longrightarrow> priv a' ! u = priv a ! u)
                     \<and> R (priv a ! t) (priv a' ! t)"
  shows "(\<forall>t < c_threadsPerBlock p. R (priv g ! t) (priv g' ! t))
         \<and> Inv g' \<and> length (priv g') = c_threadsPerBlock p"
proof -
  let ?n = "c_threadsPerBlock p"
  define I where "I rem a \<longleftrightarrow>
     distinct rem \<and> (\<forall>t \<in> set rem. t < ?n) \<and> length (priv a) = ?n \<and> Inv a \<and>
     (\<forall>t < ?n. if t \<in> set rem then priv a ! t = priv g ! t else R (priv g ! t) (priv a ! t))"
    for rem :: "nat list" and a :: group_state
  have "I [] g'"
    using run unfolding forThreads_def
  proof (rule forEach_rem[where I = I])
    show "I [0..<?n] g"
      using len inv by (simp add: I_def)
  next
    fix x ys a a'
    assume i: "I (x # ys) a" and s: "step x a = Some a'"
    from i have x: "x < ?n" "x \<notin> set ys" "distinct ys" and la: "length (priv a) = ?n"
      and ia: "Inv a" and px: "priv a ! x = priv g ! x"
      by (auto simp: I_def)
    from step[OF x(1) la ia s] have la': "length (priv a') = ?n" and ia': "Inv a'"
      and oth: "\<forall>u < ?n. u \<noteq> x \<longrightarrow> priv a' ! u = priv a ! u"
      and r: "R (priv a ! x) (priv a' ! x)"
      by blast+
    have "if t \<in> set ys then priv a' ! t = priv g ! t else R (priv g ! t) (priv a' ! t)"
      if t: "t < ?n" for t
    proof (cases "t = x")
      case True
      then show ?thesis
        using r px x(2) by simp
    next
      case False
      with oth t have "priv a' ! t = priv a ! t"
        by simp
      moreover from i t False
      have "if t \<in> set ys then priv a ! t = priv g ! t else R (priv g ! t) (priv a ! t)"
        by (auto simp: I_def split: if_splits)
      ultimately show ?thesis
        by simp
    qed
    then show "I ys a'"
      using i la' ia' x(3) by (simp add: I_def)
  qed
  then show ?thesis
    by (simp add: I_def)
qed

lemma forEach_Some: "(\<And>x s. f x s = Some s) \<Longrightarrow> forEach f xs s = Some s"
  by (induction xs) simp_all

lemma uncoupled_expansion: "\<not> haveCoupledConstraints p \<Longrightarrow> expansion p b g = Some g"
  by (simp add: expansion_def)

lemma uncoupled_matrix:
  "\<not> haveCoupledConstraints p \<Longrightarrow> forThreads p (constructMatrix p b) g = Some g"
  unfolding forThreads_def by (rule forEach_Some) (simp add: constructMatrix_def)

lemma computeRhs_phase:
  assumes "forThreads p (computeRhs p b) g = Some g'"
    and "length (priv g) = c_threadsPerBlock p"
  shows "(\<forall>t < c_threadsPerBlock p. \<exists>l. loadPositions (gm g) (priv g ! t) = Some l \<and>
           priv g' ! t = l\<lparr>sol := sqrtReducedMass l
                  * (dot3 (rc l) (pbcDxAiucSycl p (xi l) (xj l)) - targetLength l)\<rparr>)
         \<and> gm g' = gm g \<and> length (priv g') = c_threadsPerBlock p"
proof -
  let ?R = "\<lambda>tv tv'. \<exists>l. loadPositions (gm g) tv = Some l \<and>
           tv' = l\<lparr>sol := sqrtReducedMass l
                  * (dot3 (rc l) (pbcDxAiucSycl p (xi l) (xj l)) - targetLength l)\<rparr>"
  show ?thesis
    using assms
  proof (rule forThreads_private[where Inv = "\<lambda>a. gm a = gm g" and R = ?R])
    show "gm g = gm g" ..
  next
    fix t a a'
    assume t: "t < c_threadsPerBlock p" and la: "length (priv a) = c_threadsPerBlock p"
      and ga: "gm a = gm g" and s: "computeRhs p b t a = Some a'"
    from s obtain l rhs where
      l: "loadPositions (gm a) (priv a ! t) = Some l" and
      a': "a' = a\<lparr>sm_rhs := rhs, priv := (priv a)[t := l\<lparr>sol := sqrtReducedMass l
                    * (dot3 (rc l) (pbcDxAiucSycl p (xi l) (xj l)) - targetLength l)\<rparr>]\<rparr>"
      unfolding computeRhs_def Let_def dot3_def by (auto simp: bind_eq_Some_conv)
    show "length (priv a') = c_threadsPerBlock p \<and> gm a' = gm g
          \<and> (\<forall>u < c_threadsPerBlock p. u \<noteq> t \<longrightarrow> priv a' ! u = priv a ! u)
          \<and> ?R (priv a ! t) (priv a' ! t)"
      using t la ga l by (simp add: a')
  qed
qed


lemma centripetalProj_value:
  "centripetalProj srm len dlen2 = Some (srm * (if dlen2 > 0 then len - sqrt dlen2 else len))"
proof (cases "dlen2 > 0")
  case True
  then have "dlen2 * (1 / sqrt dlen2) = sqrt dlen2"
    by (metis divide_inverse mult.commute mult.right_neutral real_div_sqrt less_imp_le
          times_divide_eq_right)
  with True show ?thesis
    by (simp add: centripetalProj_def rsqrt_def)
next
  case False
  then show ?thesis
    by (simp add: centripetalProj_def)
qed

lemma centripetalRhs_phase:
  assumes "forThreads p (centripetalRhs p b) g = Some g'"
    and "length (priv g) = c_threadsPerBlock p"
  shows "(\<forall>t < c_threadsPerBlock p. \<exists>l. loadPositions (gm g) (priv g ! t) = Some l \<and>
           priv g' ! t = l\<lparr>sol := sqrtReducedMass l
             * (if 2 * (targetLength l)\<^sup>2
                    - dot3 (pbcDxAiucSycl p (xi l) (xj l)) (pbcDxAiucSycl p (xi l) (xj l)) > 0
                then targetLength l
                     - sqrt (2 * (targetLength l)\<^sup>2
                         - dot3 (pbcDxAiucSycl p (xi l) (xj l)) (pbcDxAiucSycl p (xi l) (xj l)))
                else targetLength l)\<rparr>)
         \<and> gm g' = gm g \<and> length (priv g') = c_threadsPerBlock p"
proof -
  let ?R = "\<lambda>tv tv'. \<exists>l. loadPositions (gm g) tv = Some l \<and>
           tv' = l\<lparr>sol := sqrtReducedMass l
             * (if 2 * (targetLength l)\<^sup>2
                    - dot3 (pbcDxAiucSycl p (xi l) (xj l)) (pbcDxAiucSycl p (xi l) (xj l)) > 0
                then targetLength l
                     - sqrt (2 * (targetLength l)\<^sup>2
                         - dot3 (pbcDxAiucSycl p (xi l) (xj l)) (pbcDxAiucSycl p (xi l) (xj l)))
                else targetLength l)\<rparr>"
  show ?thesis
    using assms
  proof (rule forThreads_private[where Inv = "\<lambda>a. gm a = gm g" and R = ?R])
    show "gm g = gm g" ..
  next
    fix t a a'
    assume t: "t < c_threadsPerBlock p" and la: "length (priv a) = c_threadsPerBlock p"
      and ga: "gm a = gm g" and s: "centripetalRhs p b t a = Some a'"
    from s obtain l rhs proj where
      l: "loadPositions (gm a) (priv a ! t) = Some l" and
      pr: "centripetalProj (sqrtReducedMass l) (targetLength l)
             (2 * (targetLength l)\<^sup>2
                - dot3 (pbcDxAiucSycl p (xi l) (xj l)) (pbcDxAiucSycl p (xi l) (xj l))) = Some proj" and
      a': "a' = a\<lparr>sm_rhs := rhs, priv := (priv a)[t := l\<lparr>sol := proj\<rparr>]\<rparr>"
      unfolding centripetalRhs_def Let_def dot3_def power2_eq_square
      by (auto simp: bind_eq_Some_conv)
    from pr have "proj = sqrtReducedMass l
             * (if 2 * (targetLength l)\<^sup>2
                    - dot3 (pbcDxAiucSycl p (xi l) (xj l)) (pbcDxAiucSycl p (xi l) (xj l)) > 0
                then targetLength l
                     - sqrt (2 * (targetLength l)\<^sup>2
                         - dot3 (pbcDxAiucSycl p (xi l) (xj l)) (pbcDxAiucSycl p (xi l) (xj l)))
                else targetLength l)"
      unfolding centripetalProj_value by simp
    then show "length (priv a') = c_threadsPerBlock p \<and> gm a' = gm g
          \<and> (\<forall>u < c_threadsPerBlock p. u \<noteq> t \<longrightarrow> priv a' ! u = priv a ! u)
          \<and> ?R (priv a ! t) (priv a' ! t)"
      using t la ga l by (simp add: a')
  qed
qed


lemma loadAtom_Some:
  "loadAtom xs a = Some v \<longleftrightarrow>
     0 \<le> a * DIM \<and> a * DIM + 2 < int (length xs) \<and>
     v = (xs ! nat (a * DIM + XX), xs ! nat (a * DIM + YY), xs ! nat (a * DIM + ZZ))"
  by (auto simp: loadAtom_def atomicLoad_def rd_def bind_eq_Some_conv XX_def YY_def ZZ_def)

lemma loadAtom_moved:
  assumes "loadAtom xp0 a = Some x" and "length xp = length xp0"
    and "\<And>c. c = XX \<or> c = YY \<or> c = ZZ \<Longrightarrow>
           xp ! nat (a * DIM + c) = xp0 ! nat (a * DIM + c) + s * comp d c"
  shows "loadAtom xp a = Some (moved x s d)"
proof -
  from assms(1) have r: "0 \<le> a * DIM" "a * DIM + 2 < int (length xp0)"
    and x: "x = (xp0 ! nat (a * DIM + XX), xp0 ! nat (a * DIM + YY), xp0 ! nat (a * DIM + ZZ))"
    by (simp_all add: loadAtom_Some)
  have "moved x s d = (xp ! nat (a * DIM + XX), xp ! nat (a * DIM + YY), xp ! nat (a * DIM + ZZ))"
    by (simp add: moved_def x comp_simps assms(3))
  then show ?thesis
    using r assms(2) by (simp add: loadAtom_Some)
qed

lemma moved_moved: "moved (moved x a d) b d = moved x (a + b) d"
  by (simp add: moved_def comp_simps algebra_simps)

lemma naiveCorrect_add:
  "naiveCorrect q lam (naiveCorrect q L xs) = naiveCorrect q (L + lam) xs"
  by (simp add: naiveCorrect_def moved_moved algebra_simps)

lemma atom_component:
  fixes a a' c c' :: int
  assumes "0 \<le> c" "c < 3" "0 \<le> c'" "c' < 3"
  shows "a * 3 + c = a' * 3 + c' \<longleftrightarrow> a = a' \<and> c = c'"
  using assms by presburger

lemma correction_other:
  assumes "isDummyThread tv \<or> (pair_i tv \<noteq> a \<and> pair_j tv \<noteq> a)"
    and "c = XX \<or> c = YY \<or> c = ZZ"
  shows "correction tv lam (a * DIM + c) = 0"
proof (cases "isDummyThread tv")
  case True
  then show ?thesis
    by (simp add: correction_def)
next
  case False
  with assms(1) have n: "a \<noteq> pair_i tv" "a \<noteq> pair_j tv"
    by auto
  have "a * 3 + c \<noteq> pair_i tv * 3 + c'" "a * 3 + c \<noteq> pair_j tv * 3 + c'"
    if "c' = 0 \<or> c' = 1 \<or> c' = 2" for c'
    using that assms(2) n by (auto simp: XX_def YY_def ZZ_def atom_component)
  from this[of 0] this[of 1] this[of 2] show ?thesis
    by (simp add: correction_def DIM_def XX_def YY_def ZZ_def)
qed

lemma correction_own:
  assumes "\<not> isDummyThread tv" and "pair_i tv \<noteq> pair_j tv"
    and "c = XX \<or> c = YY \<or> c = ZZ"
  shows "correction tv lam (pair_i tv * DIM + c) = - (lam * inverseMassi tv) * comp (rc tv) c"
    and "correction tv lam (pair_j tv * DIM + c) = lam * inverseMassj tv * comp (rc tv) c"
proof -
  have n: "pair_i tv * 3 + c \<noteq> pair_j tv * 3 + c'" "pair_j tv * 3 + c \<noteq> pair_i tv * 3 + c'"
    if "c' = 0 \<or> c' = 1 \<or> c' = 2" for c'
    using that assms(2,3) by (auto simp: XX_def YY_def ZZ_def atom_component)
  note m = n[of 0] n[of 1] n[of 2]
  show "correction tv lam (pair_i tv * DIM + c) = - (lam * inverseMassi tv) * comp (rc tv) c"
    using assms(3)
  proof (elim disjE)
    assume "c = XX"
    then show ?thesis
      using m assms(1) by (simp add: correction_def DIM_def XX_def YY_def ZZ_def)
  next
    assume "c = YY"
    then show ?thesis
      using m assms(1) by (simp add: correction_def DIM_def XX_def YY_def ZZ_def)
  next
    assume "c = ZZ"
    then show ?thesis
      using m assms(1) by (simp add: correction_def DIM_def XX_def YY_def ZZ_def)
  qed
  show "correction tv lam (pair_j tv * DIM + c) = lam * inverseMassj tv * comp (rc tv) c"
    using assms(3)
  proof (elim disjE)
    assume "c = XX"
    then show ?thesis
      using m assms(1) by (simp add: correction_def DIM_def XX_def YY_def ZZ_def)
  next
    assume "c = YY"
    then show ?thesis
      using m assms(1) by (simp add: correction_def DIM_def XX_def YY_def ZZ_def)
  next
    assume "c = ZZ"
    then show ?thesis
      using m assms(1) by (simp add: correction_def DIM_def XX_def YY_def ZZ_def)
  qed
qed

text \<open>Only the work-item of an isolated pair corrects its two atoms.\<close>

lemma isolated_total:
  assumes iso: "isolatedPair p b m t i j" and col: "collectedAll p b m g"
    and c: "c = XX \<or> c = YY \<or> c = ZZ"
  shows "totalCorrection g (i * DIM + c)
         = - (lagrangeScaled (priv g ! t) * inverseMassi (priv g ! t)) * comp (rc (priv g ! t)) c"
    and "totalCorrection g (j * DIM + c)
         = lagrangeScaled (priv g ! t) * inverseMassj (priv g ! t) * comp (rc (priv g ! t)) c"
proof -
  let ?n = "c_threadsPerBlock p"
  let ?f = "\<lambda>k u. correction (priv g ! u) (lagrangeScaled (priv g ! u)) k"
  from iso have t: "t < ?n" and pr: "rd (a_constraints m) (threadIndex p b t) = Some (i, j)"
    and ij: "i \<noteq> - 1" "i \<noteq> j"
    by (simp_all add: isolatedPair_def)
  from col have len: "length (priv g) = ?n"
    and cl: "\<And>u. u < ?n \<Longrightarrow> collected p m (threadIndex p b u) (priv g ! u)"
    by (simp_all add: collectedAll_def)
  from cl[OF t] pr ij have tv: "pair_i (priv g ! t) = i" "pair_j (priv g ! t) = j"
    "\<not> isDummyThread (priv g ! t)"
    by (simp_all add: collected_def)
  have other: "?f (a * DIM + c) u = 0" if u: "u < ?n" "u \<noteq> t" and a: "a = i \<or> a = j" for u a
  proof -
    from cl[OF u(1)]
    have r: "rd (a_constraints m) (threadIndex p b u) = Some (pair_i (priv g ! u), pair_j (priv g ! u))"
      and d: "isDummyThread (priv g ! u) = (pair_i (priv g ! u) = - 1)"
      by (simp_all add: collected_def)
    from iso u r have "pair_i (priv g ! u) = - 1
        \<or> (pair_i (priv g ! u) \<noteq> i \<and> pair_i (priv g ! u) \<noteq> j
           \<and> pair_j (priv g ! u) \<noteq> i \<and> pair_j (priv g ! u) \<noteq> j)"
      by (auto simp: isolatedPair_def)
    with d a have "isDummyThread (priv g ! u)
        \<or> (pair_i (priv g ! u) \<noteq> a \<and> pair_j (priv g ! u) \<noteq> a)"
      by blast
    then show ?thesis
      using c by (rule correction_other)
  qed
  have tot: "totalCorrection g (a * DIM + c) = ?f (a * DIM + c) t" if a: "a = i \<or> a = j" for a
  proof -
    have "totalCorrection g (a * DIM + c)
          = ?f (a * DIM + c) t + sum (?f (a * DIM + c)) ({..<?n} - {t})"
      unfolding totalCorrection_def len using t by (simp add: sum.remove)
    moreover have "sum (?f (a * DIM + c)) ({..<?n} - {t}) = 0"
      by (rule sum.neutral) (use other a in auto)
    ultimately show ?thesis
      by simp
  qed
  from tv ij have d: "\<not> isDummyThread (priv g ! t)" "pair_i (priv g ! t) \<noteq> pair_j (priv g ! t)"
    by simp_all
  show "totalCorrection g (i * DIM + c)
         = - (lagrangeScaled (priv g ! t) * inverseMassi (priv g ! t)) * comp (rc (priv g ! t)) c"
    using tot[of i] correction_own(1)[OF d c] by (simp add: tv)
  show "totalCorrection g (j * DIM + c)
         = lagrangeScaled (priv g ! t) * inverseMassj (priv g ! t) * comp (rc (priv g ! t)) c"
    using tot[of j] correction_own(2)[OF d c] by (simp add: tv)
qed

lemma isolated_positions:
  assumes iso: "isolatedPair p b m t i j" and col: "collectedAll p b m g"
    and pos: "posFormula xp0 g" and xs: "pairPositions xp0 i j = Some xs"
  shows "pairPositions (a_xp (gm g)) i j
         = Some (moved (fst xs) (- (lagrangeScaled (priv g ! t) * inverseMassi (priv g ! t)))
                   (rc (priv g ! t)),
                 moved (snd xs) (lagrangeScaled (priv g ! t) * inverseMassj (priv g ! t))
                   (rc (priv g ! t)))"
proof -
  from xs have li: "loadAtom xp0 i = Some (fst xs)" and lj: "loadAtom xp0 j = Some (snd xs)"
    by (auto simp: pairPositions_def bind_eq_Some_conv)
  from pos have len: "length (a_xp (gm g)) = length xp0"
    and f: "\<And>k. k < length xp0 \<Longrightarrow> a_xp (gm g) ! k = xp0 ! k + totalCorrection g (int k)"
    by (simp_all add: posFormula_def)
  have k: "nat (a * DIM + c) < length xp0 \<and> int (nat (a * DIM + c)) = a * DIM + c"
    if "loadAtom xp0 a = Some x" and "c = XX \<or> c = YY \<or> c = ZZ" for a c x
    using that by (auto simp: loadAtom_Some XX_def YY_def ZZ_def)
  have "loadAtom (a_xp (gm g)) i
        = Some (moved (fst xs) (- (lagrangeScaled (priv g ! t) * inverseMassi (priv g ! t)))
                  (rc (priv g ! t)))"
    using li len
  proof (rule loadAtom_moved)
    fix c :: int
    assume c: "c = XX \<or> c = YY \<or> c = ZZ"
    from k[OF li c] f isolated_total(1)[OF iso col c]
    show "a_xp (gm g) ! nat (i * DIM + c) = xp0 ! nat (i * DIM + c)
            + - (lagrangeScaled (priv g ! t) * inverseMassi (priv g ! t)) * comp (rc (priv g ! t)) c"
      by simp
  qed
  moreover have "loadAtom (a_xp (gm g)) j
        = Some (moved (snd xs) (lagrangeScaled (priv g ! t) * inverseMassj (priv g ! t))
                  (rc (priv g ! t)))"
    using lj len
  proof (rule loadAtom_moved)
    fix c :: int
    assume c: "c = XX \<or> c = YY \<or> c = ZZ"
    from k[OF lj c] f isolated_total(2)[OF iso col c]
    show "a_xp (gm g) ! nat (j * DIM + c) = xp0 ! nat (j * DIM + c)
            + lagrangeScaled (priv g ! t) * inverseMassj (priv g ! t) * comp (rc (priv g ! t)) c"
      by simp
  qed
  ultimately show ?thesis
    by (simp add: pairPositions_def)
qed

subsection \<open>The corrections of one pass\<close>

lemma correction_update [simp]:
  "correction (tv\<lparr>lagrangeScaled := x\<rparr>) = correction tv"
  by (intro ext) (simp add: correction_def)






section \<open>The claims\<close>



text \<open>
  C3. The expansion loop of lines 276 to 293 keeps two right-hand sides in \<open>sm_rhs\<close>,
  element \<open>threadInBlock\<close> and element \<open>threadInBlock + c_threadsPerBlock\<close>, but the
  accessor of lines 155 to 158 has \<open>c_threadsPerBlock\<close> elements. In the first round
  (\<open>rec = 0\<close>) line 291 stores the product at \<open>threadInBlock + c_threadsPerBlock\<close>, past
  the end of the buffer. So with \<open>haveCoupledConstraints\<close> and an expansion order of at
  least one, the loop has no result that could be compared with the recurrence
  \<open>s\<^sub>0 = b\<close>, \<open>s\<^sub>k\<^sub>+\<^sub>1 = b + A s\<^sub>k\<close>: the store fails for every work-item, and with it
  the expansion, the kernel and the launch.
\<close>

theorem expansion_out_of_range:
  assumes "haveCoupledConstraints p" and "0 < expansionOrder p"
    and "0 < c_threadsPerBlock p"
  shows "(\<forall>g. length (sm_rhs g) = c_threadsPerBlock p \<longrightarrow>
            (\<forall>tib v. tib < c_threadsPerBlock p \<longrightarrow>
               wr (sm_rhs g) (int tib + int (c_threadsPerBlock p) * int ((0 + 1) mod 2)) v = None)
            \<and> expansion p b g = None)
         \<and> lincsKernel p b m = None
         \<and> (0 < numConstraintsThreads p \<longrightarrow> launchLincsKernel p m = None)"
proof (intro conjI allI impI)
  fix g :: group_state and tib :: nat and v :: real
  assume "length (sm_rhs g) = c_threadsPerBlock p"
  then show "wr (sm_rhs g) (int tib + int (c_threadsPerBlock p) * int ((0 + 1) mod 2)) v = None"
    by (simp add: wr_def)
next
  fix g :: group_state
  assume "length (sm_rhs g) = c_threadsPerBlock p"
  then show "expansion p b g = None"
    using assms by (simp add: expansion_first_round)
next
  show k: "lincsKernel p b m = None" for b m
  proof (rule ccontr)
    assume "lincsKernel p b m \<noteq> None"
    then obtain g where "lincsKernel p b m = Some g"
      by blast
    then obtain g1 g2 g3 g4 where
      s: "forThreads p (collectData p b) (initialGroup p m) = Some g1"
         "forThreads p (constructMatrix p b) g1 = Some g2"
         "forThreads p (computeRhs p b) g2 = Some g3"
         "expansion p b g3 = Some g4"
      unfolding lincsKernel_def lincsKernelBody_def initialGroup_fresh
      by (auto simp: bind_eq_Some_conv)
    from rhs_phase_length[OF s(1,2,3)] have "expansion p b g3 = None"
      using assms by (simp add: expansion_first_round)
    with s(4) show False
      by simp
  qed
  assume n: "0 < numConstraintsThreads p"
  show "launchLincsKernel p m = None"
  proof (cases "numConstraintsThreads p mod c_threadsPerBlock p = 0")
    case False
    then show ?thesis
      by (simp add: launchLincsKernel_def)
  next
    case True
    then have "0 < numConstraintsThreads p div c_threadsPerBlock p"
      using n assms(3) by (metis div_greater_zero_iff dvd_imp_le mod_0_imp_dvd)
    then have "[0..<numConstraintsThreads p div c_threadsPerBlock p]
               = 0 # [1..<numConstraintsThreads p div c_threadsPerBlock p]"
      by (simp add: upt_rec)
    then show ?thesis
      using k[of 0 m] by (simp add: launchLincsKernel_def)
  qed
qed

theorem expansion_out_of_range_witness:
  "haveCoupledConstraints cArgs \<and> 0 < expansionOrder cArgs \<and> 0 < c_threadsPerBlock cArgs
   \<and> 0 < numConstraintsThreads cArgs
   \<and> forThreads cArgs (computeRhs cArgs 0)
        (cGroup [- 1 / 2, - 1 / 2] [0, 0] (cVars 0 1 (1, 0, 0) (0, 0, 0) 1 0)
                                          (cVars 1 2 (0, 0, 0) (- 1, 0, 0) 1 0))
       = Some (cGroup [- 1 / 2, - 1 / 2] [1, 1] (cVars 0 1 (2, 0, 0) (0, 0, 0) 1 1)
                                                (cVars 1 2 (0, 0, 0) (- 2, 0, 0) 1 1))
   \<and> forEach (convolute cArgs (cMemory\<lparr>a_matrixA := [- 1 / 2, - 1 / 2]\<rparr>) [1, 1]
                (threadIndex cArgs 0 0) 0) [0..<1] 0 = Some (- 1 / 2)
   \<and> wr [1, 1] (int 0 + int (c_threadsPerBlock cArgs) * int ((0 + 1) mod 2)) (- 1 / 2 :: real)
       = None
   \<and> expansion cArgs 0
        (cGroup [- 1 / 2, - 1 / 2] [1, 1] (cVars 0 1 (2, 0, 0) (0, 0, 0) 1 1)
                                          (cVars 1 2 (0, 0, 0) (- 2, 0, 0) 1 1)) = None
   \<and> lincsKernel cArgs 0 cMemory = None
   \<and> launchLincsKernel cArgs cMemory = None"
proof -
  let ?g = "cGroup [- 1 / 2, - 1 / 2] [1, 1] (cVars 0 1 (2, 0, 0) (0, 0, 0) 1 1)
                                             (cVars 1 2 (0, 0, 0) (- 2, 0, 0) 1 1)"
  have h: "haveCoupledConstraints cArgs" "0 < expansionOrder cArgs"
    "0 < c_threadsPerBlock cArgs" "0 < numConstraintsThreads cArgs"
    by (simp_all add: cArgs_simps)
  note t = expansion_out_of_range[OF h(1,2,3), of 0 cMemory]
  have l: "length (sm_rhs ?g) = c_threadsPerBlock cArgs" "sm_rhs ?g = [1, 1]"
    by (simp_all add: cGroup_def cArgs_simps)
  from t l(1) have a: "\<forall>tib v. tib < c_threadsPerBlock cArgs \<longrightarrow>
       wr (sm_rhs ?g) (int tib + int (c_threadsPerBlock cArgs) * int ((0 + 1) mod 2)) v = None"
    and b: "expansion cArgs 0 ?g = None"
    by blast+
  from a h(3) have "wr (sm_rhs ?g) (int 0 + int (c_threadsPerBlock cArgs) * int ((0 + 1) mod 2))
                      (- 1 / 2) = None"
    by blast
  then have c: "wr [1, 1] (int 0 + int (c_threadsPerBlock cArgs) * int ((0 + 1) mod 2))
                  (- 1 / 2 :: real) = None"
    by (simp only: l(2))
  from t h(4) have d: "lincsKernel cArgs 0 cMemory = None" "launchLincsKernel cArgs cMemory = None"
    by blast+
  show ?thesis
    using h c_rhs c_convolute b c d by blast
qed



text \<open>
  C6. In an iteration of the centripetal correction a work-item computes
  \<open>dlen2 = 2 r0\<^sup>2 - |dx|\<^sup>2\<close> and the right-hand side
  \<open>sqrtReducedMass * (r0 - sqrt dlen2)\<close> when \<open>dlen2\<close> is positive,
  \<open>sqrtReducedMass * r0\<close> otherwise. The reciprocal square root is only taken of a
  positive \<open>dlen2\<close>: the projection has a value for all arguments, and the step
  succeeds whenever the positions can be loaded and the work-item has its slot in
  \<open>sm_rhs\<close>.
\<close>

theorem centripetal_projection_total:
  assumes "loadPositions (gm g) (priv g ! tib) = Some tv" and "tib < length (sm_rhs g)"
    and "tib < length (priv g)"
  shows "centripetalProj srm len dlen2
           = Some (if dlen2 > 0 then srm * (len - sqrt dlen2) else srm * len)
         \<and> (\<exists>g'. centripetalRhs p b tib g = Some g'
              \<and> sol (priv g' ! tib)
                  = (if centripetalDlen2 p tv > 0
                     then sqrtReducedMass tv * (targetLength tv - sqrt (centripetalDlen2 p tv))
                     else sqrtReducedMass tv * targetLength tv)
              \<and> sm_rhs g' ! tib = sol (priv g' ! tib))"
proof -
  have proj: "centripetalProj s l d = Some (if d > 0 then s * (l - sqrt d) else s * l)" for s l d
    by (simp add: centripetalProj_def rsqrt_pos real_div_sqrt)
  have w: "wr (sm_rhs g) (int tib) v = Some ((sm_rhs g)[tib := v])" for v
    using assms(2) by (simp add: wr_def)
  show ?thesis
    using assms(2,3)
    by (simp add: proj centripetalRhs_def assms(1) Let_def w centripetalDlen2_def dot3_def
          power2_eq_square)
qed

theorem centripetal_projection_total_witness:
  "centripetalProj 1 5 (- 2) = Some 5
   \<and> (\<exists>g'. centripetalRhs (exArgs True) 0 0
              (exGroup [6, 3, 0, 1, 0, 0] [0, 0, 0, 0, 0, 0] 2 (exVars (7, 3, 0) (0, 0, 0) 2 2))
            = Some g'
         \<and> sol (priv g' ! 0) = 1 \<and> sm_rhs g' ! 0 = 1)"
proof -
  let ?g = "exGroup [6, 3, 0, 1, 0, 0] [0, 0, 0, 0, 0, 0] 2 (exVars (7, 3, 0) (0, 0, 0) 2 2)"
  let ?tv = "exVars (6, 3, 0) (1, 0, 0) 2 2"
  have load: "loadPositions (gm ?g) (priv ?g ! 0) = Some ?tv"
    by (simp add: loadPositions_def loadAtom_def atomicLoad_def rd_def exGroup_def exVars_def
          DIM_def XX_def YY_def ZZ_def)
  have d: "centripetalDlen2 (exArgs True) ?tv = 16"
    by (simp add: centripetalDlen2_def exArgs_def exVars_def pbcNone_def dot3_def comp_simps)
  have "0 < length (sm_rhs ?g)" "0 < length (priv ?g)"
    by (simp_all add: exGroup_def)
  moreover have "sqrtReducedMass ?tv = 1" "targetLength ?tv = 5"
    by (simp_all add: exVars_def)
  ultimately show ?thesis
    using centripetal_projection_total[OF load, of 1 5 "- 2" "exArgs True" 0]
    by (auto simp: d sqrt_16)
qed






end
